theory Spec2Isabelle
  imports Complex_Main
begin

section \<open>Promises, calls and thrown values\<close>

text \<open>
  The orchestrator of \<^verbatim>\<open>base-executor.ts\<close> talks to three collaborators through
  promise-returning calls. A call either throws while it is being evaluated, or returns
  a promise; a promise resolves, rejects, or never settles. The difference between the
  two ways of failing is what the \<^verbatim>\<open>try\<close>/\<^verbatim>\<open>catch\<close> blocks of the source depend
  on: a \<^verbatim>\<open>catch\<close> sees a rejection only when the promise is awaited inside the
  \<^verbatim>\<open>try\<close>.
\<close>

datatype ('e, 'a) promise = Resolved 'a | Rejected 'e | Pending

datatype ('e, 'a) call = Returns "('e, 'a) promise" | Throws 'e

text \<open>
  Modelled from the spec: \<^verbatim>\<open>PezzoClientError\<close>, which the source imports from
  \<^verbatim>\<open>./types\<close> and constructs as \<^verbatim>\<open>new PezzoClientError(message, error, statusCode?)\<close>:
  an error carrying a message, the original cause and, where there is one, a numeric status
  code. The cause is the caught error in \<^verbatim>\<open>getPrompt\<close> and \<^verbatim>\<open>getPromptVersion\<close>,
  and the backend's opaque \<^verbatim>\<open>error.error\<close> in \<^verbatim>\<open>run\<close>. Every other thrown value is
  an error object with a \<^verbatim>\<open>message\<close>. The type \<^typ>\<open>'v\<close> stands for opaque JavaScript
  values, \<^typ>\<open>'n\<close> for JavaScript numbers.
\<close>

datatype ('v, 'n) thrown =
    JsError (message: string) (detail: 'v)
  | PezzoClientError (message: string) (cause: "('v, 'n) cause") (statusCode: "'n option")
and ('v, 'n) cause =
    CaughtError "('v, 'n) thrown"
  | UnknownCause 'v

text \<open>
  \<^verbatim>\<open>await e\<close> inside an async function: an exception thrown while \<^verbatim>\<open>e\<close> is
  evaluated and a rejection of the awaited promise both leave the function through the
  same exit.
\<close>

fun await :: "('e, 'a) call \<Rightarrow> ('e, 'a) promise" where
  "await (Returns p) = p"
| "await (Throws e) = Rejected e"

section \<open>Data model\<close>

record Prompt =
  prompt_id :: string

record 'v Settings =
  model :: 'v
  modelSettings :: 'v

record ('v, 'x) PromptVersion =
  sha :: string
  content :: string
  settings :: "('v, 'x) Settings_scheme"

record ExecuteOptions =
  autoParseJSON :: "bool option"

record 'v ExecuteProps =
  content :: string
  settings :: "'v Settings"
  options :: "ExecuteOptions option"

datatype status = Success | Error

record ('v, 'n) ExecuteError =
  error :: 'v
  message :: "string option"
  printableError :: string
  status :: 'n

record ('v, 'n) ExecuteResult =
  status :: status
  promptTokens :: 'n
  completionTokens :: 'n
  promptCost :: 'n
  completionCost :: 'n
  error :: "('v, 'n) ExecuteError option"
  result :: "string option"

text \<open>The object \<^verbatim>\<open>{ connect: { id: prompt.id } }\<close>.\<close>

record PromptConnect =
  connect_id :: string

text \<open>
  The object literal handed to \<^verbatim>\<open>reportPromptExecution\<close>. A key the literal does not
  have, and a key whose value is \<^verbatim>\<open>undefined\<close>, are both \<^const>\<open>None\<close>.
\<close>

record ('v, 'n, 'x) Report =
  prompt :: PromptConnect
  promptVersionSha :: string
  status :: status
  content :: string
  variables :: "string \<rightharpoonup> string"
  interpolatedContent :: string
  settings :: "('v, 'x) Settings_scheme"
  result :: "string option"
  error :: "string option"
  promptTokens :: 'n
  completionTokens :: 'n
  totalTokens :: 'n
  promptCost :: 'n
  completionCost :: 'n
  totalCost :: 'n
  duration :: int

section \<open>Collaborators\<close>

text \<open>
  Every call that leaves the orchestrator is recorded, with its arguments and with what came
  back, in the order the calls are made. A collaborator answers as a function of the calls
  made so far and of its arguments, so the same method may answer differently the second time.
\<close>

datatype ('v, 'n, 'x) event =
    FindPrompt string "(('v, 'n) thrown, Prompt) call"
  | GetDeployedPromptVersion string "(('v, 'n) thrown, ('v, 'x) PromptVersion) call"
  | InterpolateVariables string "string \<rightharpoonup> string" string
  | PerformanceNow rat
  | Execute "'v ExecuteProps" "(('v, 'n) thrown, ('v, 'n) ExecuteResult) call"
  | ReportPromptExecution "('v, 'n, 'x) Report" "bool option" "(('v, 'n) thrown, 'v) call"

type_synonym ('v, 'n, 'x) trace = "('v, 'n, 'x) event list"

record ('v, 'n, 'x) Pezzo =
  findPrompt :: "('v, 'n, 'x) trace \<Rightarrow> string \<Rightarrow> (('v, 'n) thrown, Prompt) call"
  getDeployedPromptVersion ::
    "('v, 'n, 'x) trace \<Rightarrow> string \<Rightarrow> (('v, 'n) thrown, ('v, 'x) PromptVersion) call"
  reportPromptExecution ::
    "('v, 'n, 'x) trace \<Rightarrow> ('v, 'n, 'x) Report \<Rightarrow> bool option \<Rightarrow> (('v, 'n) thrown, 'v) call"

text \<open>
  \<^verbatim>\<open>BaseExecutor\<close>: the private client handle and the abstract \<^verbatim>\<open>execute\<close> a
  subclass supplies. The imported \<^verbatim>\<open>interpolateVariables\<close>, whose file is not among
  the sources, and the platform's \<^verbatim>\<open>performance.now\<close> are parameters as well.
  Interpolation is a pure and total function of its two arguments. Timestamps are rationals
  and their difference is exact.
\<close>

record ('v, 'n, 'x) BaseExecutor =
  pezzoClient :: "('v, 'n, 'x) Pezzo"
  execute ::
    "('v, 'n, 'x) trace \<Rightarrow> 'v ExecuteProps \<Rightarrow> (('v, 'n) thrown, ('v, 'n) ExecuteResult) call"
  interpolateVariables :: "string \<Rightarrow> (string \<rightharpoonup> string) \<Rightarrow> string"
  performance_now :: "('v, 'n, 'x) trace \<Rightarrow> rat"

section \<open>The orchestrator\<close>

text \<open>
  \<^verbatim>\<open>getPrompt\<close> and \<^verbatim>\<open>getPromptVersion\<close> are not async and do not await: their
  \<^verbatim>\<open>catch\<close> wraps what the client call throws, and a returned promise is passed on as
  it is.
\<close>

definition getPrompt ::
  "('v, 'n, 'x) BaseExecutor \<Rightarrow> ('v, 'n, 'x) trace \<Rightarrow> string
    \<Rightarrow> (('v, 'n) thrown, Prompt) call \<times> ('v, 'n, 'x) trace" where
  "getPrompt this h promptName =
     (let r = findPrompt (pezzoClient this) h promptName;
          h' = h @ [FindPrompt promptName r]
      in (case r of
            Returns p \<Rightarrow> Returns p
          | Throws err \<Rightarrow>
              Throws (PezzoClientError (thrown.message err) (CaughtError err) None),
          h'))"

definition getPromptVersion ::
  "('v, 'n, 'x) BaseExecutor \<Rightarrow> ('v, 'n, 'x) trace \<Rightarrow> string
    \<Rightarrow> (('v, 'n) thrown, ('v, 'x) PromptVersion) call \<times> ('v, 'n, 'x) trace" where
  "getPromptVersion this h promptId =
     (let r = getDeployedPromptVersion (pezzoClient this) h promptId;
          h' = h @ [GetDeployedPromptVersion promptId r]
      in (case r of
            Returns p \<Rightarrow> Returns p
          | Throws err \<Rightarrow>
              Throws (PezzoClientError (thrown.message err) (CaughtError err) None),
          h'))"

text \<open>The two report literals of \<^verbatim>\<open>run\<close> (lines 100--121 and 125--144).\<close>

definition firstReport ::
  "Prompt \<Rightarrow> ('v, 'x) PromptVersion \<Rightarrow> (string \<rightharpoonup> string) \<Rightarrow> string
    \<Rightarrow> ('v, 'n::plus) ExecuteResult \<Rightarrow> int \<Rightarrow> ('v, 'n, 'x) Report" where
  "firstReport prompt promptVersion variables interpolatedContent executionResult duration =
     \<lparr> prompt = \<lparr> connect_id = prompt_id prompt \<rparr>,
       promptVersionSha = sha promptVersion,
       status = ExecuteResult.status executionResult,
       content = PromptVersion.content promptVersion,
       variables = variables,
       interpolatedContent = interpolatedContent,
       settings = PromptVersion.settings promptVersion,
       result = ExecuteResult.result executionResult,
       error = (case ExecuteResult.error executionResult of
                  None \<Rightarrow> None
                | Some e \<Rightarrow> Some (printableError e)),
       promptTokens = ExecuteResult.promptTokens executionResult,
       completionTokens = ExecuteResult.completionTokens executionResult,
       totalTokens =
         ExecuteResult.promptTokens executionResult
           + ExecuteResult.completionTokens executionResult,
       promptCost = ExecuteResult.promptCost executionResult,
       completionCost = ExecuteResult.completionCost executionResult,
       totalCost =
         ExecuteResult.promptCost executionResult + ExecuteResult.completionCost executionResult,
       duration = duration \<rparr>"
  for prompt variables interpolatedContent duration

definition retryReport ::
  "Prompt \<Rightarrow> ('v, 'x) PromptVersion \<Rightarrow> (string \<rightharpoonup> string) \<Rightarrow> string
    \<Rightarrow> ('v, 'n::plus) ExecuteResult \<Rightarrow> int \<Rightarrow> ('v, 'n, 'x) Report" where
  "retryReport prompt promptVersion variables interpolatedContent executionResult duration =
     \<lparr> prompt = \<lparr> connect_id = prompt_id prompt \<rparr>,
       promptVersionSha = sha promptVersion,
       status = Error,
       content = PromptVersion.content promptVersion,
       variables = variables,
       interpolatedContent = interpolatedContent,
       settings = PromptVersion.settings promptVersion,
       result = None,
       error = (case ExecuteResult.error executionResult of
                  None \<Rightarrow> None
                | Some e \<Rightarrow> Some (printableError e)),
       promptTokens = ExecuteResult.promptTokens executionResult,
       completionTokens = ExecuteResult.completionTokens executionResult,
       totalTokens =
         ExecuteResult.promptTokens executionResult
           + ExecuteResult.completionTokens executionResult,
       promptCost = ExecuteResult.promptCost executionResult,
       completionCost = ExecuteResult.completionCost executionResult,
       totalCost =
         ExecuteResult.promptCost executionResult + ExecuteResult.completionCost executionResult,
       duration = duration \<rparr>"
  for prompt variables interpolatedContent duration

text \<open>
  Lines 98--146. The first submission is returned without being awaited, so the promise of
  \<^verbatim>\<open>run\<close> takes over whatever that promise does and the \<^verbatim>\<open>catch\<close> runs only when
  the call itself throws. In the \<^verbatim>\<open>catch\<close> the second call is a bare expression
  statement: if it throws, that exception leaves the block; if it returns, its promise is
  dropped and \<^verbatim>\<open>throw e\<close> rethrows the first exception.
\<close>

definition submitReport ::
  "('v, 'n::plus, 'x) BaseExecutor \<Rightarrow> ('v, 'n, 'x) trace \<Rightarrow> Prompt \<Rightarrow> ('v, 'x) PromptVersion
    \<Rightarrow> (string \<rightharpoonup> string) \<Rightarrow> ExecuteOptions \<Rightarrow> string \<Rightarrow> ('v, 'n) ExecuteResult \<Rightarrow> int
    \<Rightarrow> (('v, 'n) thrown, 'v) promise \<times> ('v, 'n, 'x) trace" where
  "submitReport this h prompt promptVersion variables options interpolatedContent executionResult
      duration =
     (let r1 = firstReport prompt promptVersion variables interpolatedContent executionResult
                 duration;
          c1 = reportPromptExecution (pezzoClient this) h r1 (autoParseJSON options);
          h1 = h @ [ReportPromptExecution r1 (autoParseJSON options) c1]
      in case c1 of
           Returns p \<Rightarrow> (p, h1)
         | Throws e \<Rightarrow>
             (let r2 = retryReport prompt promptVersion variables interpolatedContent
                         executionResult duration;
                  c2 = reportPromptExecution (pezzoClient this) h1 r2 None;
                  h2 = h1 @ [ReportPromptExecution r2 None c2]
              in case c2 of
                   Throws e2 \<Rightarrow> (Rejected e2, h2)
                 | Returns p2 \<Rightarrow> (Rejected e, h2)))"
  for prompt variables options interpolatedContent duration

text \<open>Lines 65--96: from the resolved version to the report.\<close>

definition executeAndReport ::
  "('v, 'n::plus, 'x) BaseExecutor \<Rightarrow> ('v, 'n, 'x) trace \<Rightarrow> Prompt \<Rightarrow> ('v, 'x) PromptVersion
    \<Rightarrow> (string \<rightharpoonup> string) \<Rightarrow> ExecuteOptions
    \<Rightarrow> (('v, 'n) thrown, 'v) promise \<times> ('v, 'n, 'x) trace" where
  "executeAndReport this h prompt promptVersion variables options =
     (let settings = PromptVersion.settings promptVersion;
          content = PromptVersion.content promptVersion;
          interpolatedContent = interpolateVariables this content variables;
          h1 = h @ [InterpolateVariables content variables interpolatedContent];
          start = performance_now this h1;
          h2 = h1 @ [PerformanceNow start];
          props = \<lparr> ExecuteProps.content = interpolatedContent,
                    ExecuteProps.settings = \<lparr> model = model settings,
                                 modelSettings = modelSettings settings \<rparr>,
                    options = Some options \<rparr>;
          c = execute this h2 props;
          h3 = h2 @ [Execute props c]
      in case await c of
           Rejected e \<Rightarrow> (Rejected e, h3)
         | Pending \<Rightarrow> (Pending, h3)
         | Resolved executionResult \<Rightarrow>
             (case ExecuteResult.error executionResult of
                Some e \<Rightarrow>
                  (let error = ExecuteError.error e;
                       status = ExecuteError.status e
                   in (Rejected (PezzoClientError
                         ''Prompt execution failed. Check the Pezzo History to see what went wrong.''
                         (UnknownCause error) (Some status)),
                       h3))
              | None \<Rightarrow>
                  (let end = performance_now this h3;
                       h4 = h3 @ [PerformanceNow end];
                       duration = \<lceil>end - start\<rceil>
                   in submitReport this h4 prompt promptVersion variables options
                        interpolatedContent executionResult duration)))"
  for prompt variables options

text \<open>
  \<^verbatim>\<open>run\<close>, lines 57--147. The result is the state of the promise \<^verbatim>\<open>run\<close> returns,
  with the calls the run made.
\<close>

definition run ::
  "('v, 'n::plus, 'x) BaseExecutor \<Rightarrow> string \<Rightarrow> (string \<rightharpoonup> string) \<Rightarrow> ExecuteOptions
    \<Rightarrow> (('v, 'n) thrown, 'v) promise \<times> ('v, 'n, 'x) trace" where
  "run this promptName variables options =
     (case getPrompt this [] promptName of (c1, h1) \<Rightarrow>
        (case await c1 of
           Rejected e \<Rightarrow> (Rejected e, h1)
         | Pending \<Rightarrow> (Pending, h1)
         | Resolved p \<Rightarrow>
             (let prompt = p
              in case getPromptVersion this h1 (prompt_id prompt) of (c2, h2) \<Rightarrow>
                (case await c2 of
                   Rejected e \<Rightarrow> (Rejected e, h2)
                 | Pending \<Rightarrow> (Pending, h2)
                 | Resolved promptVersion \<Rightarrow>
                     executeAndReport this h2 prompt promptVersion variables options))))"
  for variables options

section \<open>Reading a trace\<close>

text \<open>
  The report submissions, backend executions, interpolations and clock readings of a trace,
  in the order they happened.
\<close>

fun reports ::
  "('v, 'n, 'x) trace
    \<Rightarrow> (('v, 'n, 'x) Report \<times> bool option \<times> (('v, 'n) thrown, 'v) call) list" where
  "reports [] = []"
| "reports (ReportPromptExecution r a c # h) = (r, a, c) # reports h"
| "reports (_ # h) = reports h"

fun executions ::
  "('v, 'n, 'x) trace
    \<Rightarrow> ('v ExecuteProps \<times> (('v, 'n) thrown, ('v, 'n) ExecuteResult) call) list" where
  "executions [] = []"
| "executions (Execute p c # h) = (p, c) # executions h"
| "executions (_ # h) = executions h"

fun interpolations ::
  "('v, 'n, 'x) trace \<Rightarrow> (string \<times> (string \<rightharpoonup> string) \<times> string) list" where
  "interpolations [] = []"
| "interpolations (InterpolateVariables t vs s # h) = (t, vs, s) # interpolations h"
| "interpolations (_ # h) = interpolations h"

fun readings :: "('v, 'n, 'x) trace \<Rightarrow> rat list" where
  "readings [] = []"
| "readings (PerformanceNow t # h) = t # readings h"
| "readings (_ # h) = readings h"

text \<open>What came back from each report submission.\<close>

definition reportOutcomes :: "('v, 'n, 'x) trace \<Rightarrow> (('v, 'n) thrown, 'v) call list" where
  "reportOutcomes h = map (\<lambda>(r, a, c). c) (reports h)"

text \<open>The error a promise rejected with, if it did.\<close>

fun rejection :: "('e, 'a) promise \<Rightarrow> 'e option" where
  "rejection (Rejected e) = Some e"
| "rejection (Resolved v) = None"
| "rejection Pending = None"

text \<open>
  The request \<^verbatim>\<open>run\<close> hands to \<^verbatim>\<open>execute\<close>, and the calls every run makes
  before it, once both lookups have resolved.
\<close>

abbreviation propsOf ::
  "('v, 'n, 'x) BaseExecutor \<Rightarrow> ('v, 'x) PromptVersion \<Rightarrow> (string \<rightharpoonup> string) \<Rightarrow> ExecuteOptions
    \<Rightarrow> 'v ExecuteProps" where
  "propsOf this pv vs os \<equiv>
     \<lparr> ExecuteProps.content = interpolateVariables this (PromptVersion.content pv) vs,
       ExecuteProps.settings = \<lparr> model = model (PromptVersion.settings pv),
                                 modelSettings = modelSettings (PromptVersion.settings pv) \<rparr>,
       options = Some os \<rparr>"

abbreviation prelude ::
  "('v, 'n, 'x) BaseExecutor \<Rightarrow> string \<Rightarrow> Prompt \<Rightarrow> ('v, 'x) PromptVersion \<Rightarrow> (string \<rightharpoonup> string)
    \<Rightarrow> rat \<Rightarrow> ('v, 'n, 'x) trace" where
  "prelude this n p pv vs t \<equiv>
     [FindPrompt n (Returns (Resolved p)),
      GetDeployedPromptVersion (prompt_id p) (Returns (Resolved pv)),
      InterpolateVariables (PromptVersion.content pv) vs
        (interpolateVariables this (PromptVersion.content pv) vs),
      PerformanceNow t]"

section \<open>Scenarios\<close>

text \<open>
  The greeting scenario: the deployed version of prompt \<^verbatim>\<open>greeting\<close> has the template
  \<^verbatim>\<open>Hello, {{name}}!\<close>, the backend answers \<^verbatim>\<open>Hi Ada\<close> with 3 and 2 tokens at
  costs 0.001 and 0.002, and the report submission resolves. Opaque values are strings,
  numbers are rationals, and the settings carry one more field than the backend is given.
\<close>

record 'v ProviderSettings = "'v Settings" +
  provider :: 'v

type_synonym extra = "(string, unit) ProviderSettings_ext"

definition adaVariables :: "string \<rightharpoonup> string" where
  "adaVariables = [''name'' \<mapsto> ''Ada'']"

definition noOptions :: ExecuteOptions where
  "noOptions = \<lparr> autoParseJSON = None \<rparr>"

definition parseOptions :: ExecuteOptions where
  "parseOptions = \<lparr> autoParseJSON = Some True \<rparr>"

definition greetingVersion :: "(string, extra) PromptVersion" where
  "greetingVersion =
     \<lparr> sha = ''9f2c'',
       PromptVersion.content = ''Hello, {{name}}!'',
       PromptVersion.settings = \<lparr> model = ''gpt-3.5-turbo'', modelSettings = ''temperature=0'',
                    provider = ''OpenAI'' \<rparr> \<rparr>"

definition greetingPrompt :: Prompt where
  "greetingPrompt = \<lparr> prompt_id = ''prompt-1'' \<rparr>"

definition greetingProps :: "ExecuteOptions \<Rightarrow> string ExecuteProps" where
  "greetingProps os =
     \<lparr> ExecuteProps.content = ''Hello, Ada!'',
       ExecuteProps.settings = \<lparr> model = ''gpt-3.5-turbo'', modelSettings = ''temperature=0'' \<rparr>,
       options = Some os \<rparr>"

definition greetingResult :: "(string, rat) ExecuteResult" where
  "greetingResult =
     \<lparr> ExecuteResult.status = Success,
       ExecuteResult.promptTokens = 3, ExecuteResult.completionTokens = 2,
       ExecuteResult.promptCost = 1 / 1000, ExecuteResult.completionCost = 2 / 1000,
       ExecuteResult.error = None, ExecuteResult.result = Some ''Hi Ada'' \<rparr>"

definition greetingClient :: "(string, rat, extra) Pezzo" where
  "greetingClient =
     \<lparr> findPrompt = (\<lambda>h name. Returns (Resolved greetingPrompt)),
       getDeployedPromptVersion = (\<lambda>h promptId. Returns (Resolved greetingVersion)),
       reportPromptExecution = (\<lambda>h r a. Returns (Resolved ''reported'')) \<rparr>"

definition greeting :: "(string, rat, extra) BaseExecutor" where
  "greeting =
     \<lparr> pezzoClient = greetingClient,
       execute = (\<lambda>h props. Returns (Resolved greetingResult)),
       interpolateVariables = (\<lambda>t vs. ''Hello, Ada!''),
       performance_now = (\<lambda>h. if readings h = [] then 1000 else 2501 / 2) \<rparr>"

text \<open>
  The backend answers with an error record: \<^verbatim>\<open>rate limited\<close>, status 429.
\<close>

definition rateLimit :: "(string, rat) ExecuteError" where
  "rateLimit =
     \<lparr> ExecuteError.error = ''HTTP 429 from provider'', ExecuteError.message = None,
       printableError = ''rate limited'', ExecuteError.status = 429 \<rparr>"

definition rateLimitedResult :: "(string, rat) ExecuteResult" where
  "rateLimitedResult =
     \<lparr> ExecuteResult.status = Error,
       ExecuteResult.promptTokens = 3, ExecuteResult.completionTokens = 0,
       ExecuteResult.promptCost = 1 / 1000, ExecuteResult.completionCost = 0,
       ExecuteResult.error = Some rateLimit,
       ExecuteResult.result = None \<rparr>"

definition rateLimited :: "(string, rat, extra) BaseExecutor" where
  "rateLimited = greeting \<lparr> execute := (\<lambda>h props. Returns (Resolved rateLimitedResult)) \<rparr>"

text \<open>
  The backend tags its result \<^verbatim>\<open>Error\<close> and gives neither an error record nor a
  result.
\<close>

definition taggedResult :: "(string, rat) ExecuteResult" where
  "taggedResult =
     \<lparr> ExecuteResult.status = Error,
       ExecuteResult.promptTokens = 3, ExecuteResult.completionTokens = 0,
       ExecuteResult.promptCost = 1 / 1000, ExecuteResult.completionCost = 0,
       ExecuteResult.error = None, ExecuteResult.result = None \<rparr>"

definition tagged :: "(string, rat, extra) BaseExecutor" where
  "tagged = greeting \<lparr> execute := (\<lambda>h props. Returns (Resolved taggedResult)) \<rparr>"

text \<open>
  The prompt lookup fails: once as a promise that rejects (what an async client method
  does), once as an exception thrown by the call itself.
\<close>

definition promptNotFound :: "(string, rat) thrown" where
  "promptNotFound = JsError ''Prompt not found'' ''404''"

definition lookupRejects :: "(string, rat, extra) BaseExecutor" where
  "lookupRejects =
     greeting \<lparr> pezzoClient :=
       greetingClient \<lparr> findPrompt := (\<lambda>h name. Returns (Rejected promptNotFound)) \<rparr> \<rparr>"

definition lookupThrows :: "(string, rat, extra) BaseExecutor" where
  "lookupThrows =
     greeting \<lparr> pezzoClient :=
       greetingClient \<lparr> findPrompt := (\<lambda>h name. Throws promptNotFound) \<rparr> \<rparr>"

definition versionRejects :: "(string, rat, extra) BaseExecutor" where
  "versionRejects =
     greeting \<lparr> pezzoClient :=
       greetingClient \<lparr> getDeployedPromptVersion :=
         (\<lambda>h promptId. Returns (Rejected promptNotFound)) \<rparr> \<rparr>"

text \<open>
  The first report submission throws; the retry returns a promise that rejects with another
  error, or throws another error itself.
\<close>

definition reportDown :: "(string, rat) thrown" where
  "reportDown = JsError ''report endpoint unreachable'' ''ECONNREFUSED''"

definition retryDown :: "(string, rat) thrown" where
  "retryDown = JsError ''retry refused'' ''ECONNRESET''"

definition retryRejects :: "(string, rat, extra) BaseExecutor" where
  "retryRejects =
     greeting \<lparr> pezzoClient :=
       greetingClient \<lparr> reportPromptExecution :=
         (\<lambda>h r a. if reports h = [] then Throws reportDown
                   else Returns (Rejected retryDown)) \<rparr> \<rparr>"

definition retryThrows :: "(string, rat, extra) BaseExecutor" where
  "retryThrows =
     greeting \<lparr> pezzoClient :=
       greetingClient \<lparr> reportPromptExecution :=
         (\<lambda>h r a. if reports h = [] then Throws reportDown else Throws retryDown) \<rparr> \<rparr>"

text \<open>The two reports of the greeting scenario, 251 ms after rounding up.\<close>

definition greetingReport :: "(string, rat, extra) Report" where
  "greetingReport =
     firstReport greetingPrompt greetingVersion adaVariables ''Hello, Ada!'' greetingResult 251"

definition greetingRetry :: "(string, rat, extra) Report" where
  "greetingRetry =
     retryReport greetingPrompt greetingVersion adaVariables ''Hello, Ada!'' greetingResult 251"

text \<open>The one report of the scenario whose backend tags its result \<^verbatim>\<open>Error\<close>.\<close>

definition taggedReport :: "(string, rat, extra) Report" where
  "taggedReport =
     firstReport greetingPrompt greetingVersion adaVariables ''Hello, Ada!'' taggedResult 251"

section \<open>The shapes of a run\<close>

text \<open>
  A call has thrown, or its promise has resolved, rejected or not settled.
\<close>

lemma await_cases [case_names resolved rejected thrown pending]:
  obtains v where "c = Returns (Resolved v)" | e where "c = Returns (Rejected e)"
    | e where "c = Throws e" | "c = Returns Pending"
proof (cases c)
  case (Returns p)
  then show ?thesis using that by (cases p) auto
next
  case (Throws e)
  then show ?thesis using that by auto
qed

text \<open>
  The reporting block ends in one of two ways: one submission whose promise becomes the
  promise of the run, or a submission that threw followed by the retry.
\<close>

lemma submitReport_cases [consumes 1, case_names submitted retried]:
  assumes "submitReport this h p pv vs os ic res d = (outcome, tr)"
  obtains
    pr where "tr = h @ [ReportPromptExecution (firstReport p pv vs ic res d) (autoParseJSON os)
                          (Returns pr)]"
      and "outcome = pr"
  | e1 c2 where "tr = h @ [ReportPromptExecution (firstReport p pv vs ic res d) (autoParseJSON os)
                             (Throws e1),
                           ReportPromptExecution (retryReport p pv vs ic res d) None c2]"
      and "outcome = Rejected (case c2 of Throws e2 \<Rightarrow> e2 | Returns q \<Rightarrow> e1)"
proof (cases "reportPromptExecution (pezzoClient this) h (firstReport p pv vs ic res d)
                (autoParseJSON os)")
  case (Returns pr)
  with assms have "tr = h @ [ReportPromptExecution (firstReport p pv vs ic res d)
                     (autoParseJSON os) (Returns pr)]" and "outcome = pr"
    by (auto simp add: submitReport_def Let_def)
  then show ?thesis by (rule that(1))
next
  case (Throws e1)
  define c2 where "c2 = reportPromptExecution (pezzoClient this)
        (h @ [ReportPromptExecution (firstReport p pv vs ic res d) (autoParseJSON os) (Throws e1)])
        (retryReport p pv vs ic res d) None"
  from assms Throws
  have "tr = h @ [ReportPromptExecution (firstReport p pv vs ic res d) (autoParseJSON os)
                    (Throws e1),
                  ReportPromptExecution (retryReport p pv vs ic res d) None c2]"
    and "outcome = Rejected (case c2 of Throws e2 \<Rightarrow> e2 | Returns q \<Rightarrow> e1)"
    by (auto simp add: submitReport_def Let_def c2_def split: call.splits)
  then show ?thesis by (rule that(2))
qed

text \<open>From the resolved version on, a run ends in one of five ways.\<close>

lemma executeAndReport_cases
  [consumes 1, case_names execute_failed execute_pending backend_error submitted retried]:
  assumes "executeAndReport this h p pv vs os = (outcome, tr)"
  obtains
    t0 c e where "tr = h @ [InterpolateVariables (PromptVersion.content pv) vs
                            (interpolateVariables this (PromptVersion.content pv) vs),
                          PerformanceNow t0, Execute (propsOf this pv vs os) c]"
      and "await c = Rejected e" and "outcome = Rejected e"
  | t0 where "tr = h @ [InterpolateVariables (PromptVersion.content pv) vs
                            (interpolateVariables this (PromptVersion.content pv) vs),
                          PerformanceNow t0, Execute (propsOf this pv vs os) (Returns Pending)]"
      and "outcome = Pending"
  | t0 res e where "tr = h @ [InterpolateVariables (PromptVersion.content pv) vs
                            (interpolateVariables this (PromptVersion.content pv) vs),
                          PerformanceNow t0,
                          Execute (propsOf this pv vs os) (Returns (Resolved res))]"
      and "ExecuteResult.error res = Some e"
      and "outcome = Rejected (PezzoClientError
             ''Prompt execution failed. Check the Pezzo History to see what went wrong.''
             (UnknownCause (ExecuteError.error e)) (Some (ExecuteError.status e)))"
  | t0 res t1 pr where
        "tr = h @ [InterpolateVariables (PromptVersion.content pv) vs
                     (interpolateVariables this (PromptVersion.content pv) vs),
                   PerformanceNow t0,
                   Execute (propsOf this pv vs os) (Returns (Resolved res)),
                   PerformanceNow t1,
                   ReportPromptExecution
                     (firstReport p pv vs (interpolateVariables this (PromptVersion.content pv) vs)
                        res \<lceil>t1 - t0\<rceil>)
                     (autoParseJSON os) (Returns pr)]"
      and "ExecuteResult.error res = None" and "outcome = pr"
  | t0 res t1 e1 c2 where
        "tr = h @ [InterpolateVariables (PromptVersion.content pv) vs
                     (interpolateVariables this (PromptVersion.content pv) vs),
                   PerformanceNow t0,
                   Execute (propsOf this pv vs os) (Returns (Resolved res)),
                   PerformanceNow t1,
                   ReportPromptExecution
                     (firstReport p pv vs (interpolateVariables this (PromptVersion.content pv) vs)
                        res \<lceil>t1 - t0\<rceil>)
                     (autoParseJSON os) (Throws e1),
                   ReportPromptExecution
                     (retryReport p pv vs (interpolateVariables this (PromptVersion.content pv) vs)
                        res \<lceil>t1 - t0\<rceil>)
                     None c2]"
      and "ExecuteResult.error res = None"
      and "outcome = Rejected (case c2 of Throws e2 \<Rightarrow> e2 | Returns q \<Rightarrow> e1)"
proof -
  define ic where "ic = interpolateVariables this (PromptVersion.content pv) vs"
  define h1 where "h1 = h @ [InterpolateVariables (PromptVersion.content pv) vs ic]"
  define t0 where "t0 = performance_now this h1"
  define h2 where "h2 = h1 @ [PerformanceNow t0]"
  define c where "c = execute this h2 (propsOf this pv vs os)"
  define h3 where "h3 = h2 @ [Execute (propsOf this pv vs os) c]"
  note defs = ic_def h1_def t0_def h2_def c_def h3_def
  have h3: "h3 = h @ [InterpolateVariables (PromptVersion.content pv) vs ic,
                      PerformanceNow t0, Execute (propsOf this pv vs os) c]"
    by (simp add: h3_def h2_def h1_def)
  have unfold: "executeAndReport this h p pv vs os =
     (case await c of
        Rejected e \<Rightarrow> (Rejected e, h3)
      | Pending \<Rightarrow> (Pending, h3)
      | Resolved res \<Rightarrow>
          (case ExecuteResult.error res of
             Some e \<Rightarrow>
               (Rejected (PezzoClientError
                  ''Prompt execution failed. Check the Pezzo History to see what went wrong.''
                  (UnknownCause (ExecuteError.error e)) (Some (ExecuteError.status e))), h3)
           | None \<Rightarrow>
               submitReport this (h3 @ [PerformanceNow (performance_now this h3)]) p pv vs os ic res
                 \<lceil>performance_now this h3 - t0\<rceil>))"
    unfolding executeAndReport_def Let_def defs ..
  show thesis
  proof (cases c rule: await_cases)
    case (resolved res)
    show ?thesis
    proof (cases "ExecuteResult.error res")
      case (Some e)
      with assms resolved unfold
      have "tr = h3" and "outcome = Rejected (PezzoClientError
             ''Prompt execution failed. Check the Pezzo History to see what went wrong.''
             (UnknownCause (ExecuteError.error e)) (Some (ExecuteError.status e)))"
        by simp_all
      with Some resolved show ?thesis
        using that(3) [of t0 res e] by (simp add: h3 ic_def)
    next
      case None
      define t1 where "t1 = performance_now this h3"
      from assms resolved unfold None
      have rep: "submitReport this (h3 @ [PerformanceNow t1]) p pv vs os ic res \<lceil>t1 - t0\<rceil>
                   = (outcome, tr)"
        by (simp add: t1_def)
      from rep show ?thesis
      proof (cases rule: submitReport_cases)
        case (submitted pr)
        with None resolved show ?thesis
          using that(4) [of t0 res t1 pr] by (simp add: h3 ic_def)
      next
        case (retried e1 c2)
        with None resolved show ?thesis
          using that(5) [of t0 res t1 e1 c2] by (simp add: h3 ic_def)
      qed
    qed
  next
    case (rejected e)
    with assms unfold have "tr = h3" "outcome = Rejected e" by simp_all
    with rejected show ?thesis using that(1) [of t0 c e] by (simp add: h3 ic_def)
  next
    case (thrown e)
    with assms unfold have "tr = h3" "outcome = Rejected e" by simp_all
    with thrown show ?thesis using that(1) [of t0 c e] by (simp add: h3 ic_def)
  next
    case pending
    with assms unfold have "tr = h3" "outcome = Pending" by simp_all
    with pending show ?thesis using that(2) [of t0] by (simp add: h3 ic_def)
  qed
qed


text \<open>
  Every run is one of eleven: either lookup throws, rejects or does not settle; the backend
  fails or does not settle; the backend answers with an error record; the report is
  submitted once; or it is submitted twice.
\<close>

lemma run_cases
  [consumes 1, case_names prompt_thrown prompt_rejected prompt_pending
     version_thrown version_rejected version_pending
     execute_failed execute_pending backend_error submitted retried]:
  assumes "run this n vs os = (outcome, tr)"
  obtains
    e where "tr = [FindPrompt n (Throws e)]"
      and "outcome = Rejected (PezzoClientError (thrown.message e) (CaughtError e) None)"
  | e where "tr = [FindPrompt n (Returns (Rejected e))]" and "outcome = Rejected e"
  | "tr = [FindPrompt n (Returns Pending)]" and "outcome = Pending"
  | p e where "tr = [FindPrompt n (Returns (Resolved p)),
                     GetDeployedPromptVersion (prompt_id p) (Throws e)]"
      and "outcome = Rejected (PezzoClientError (thrown.message e) (CaughtError e) None)"
  | p e where "tr = [FindPrompt n (Returns (Resolved p)),
                     GetDeployedPromptVersion (prompt_id p) (Returns (Rejected e))]"
      and "outcome = Rejected e"
  | p where "tr = [FindPrompt n (Returns (Resolved p)),
                   GetDeployedPromptVersion (prompt_id p) (Returns Pending)]"
      and "outcome = Pending"
  | p pv t0 c e where "tr = prelude this n p pv vs t0 @ [Execute (propsOf this pv vs os) c]"
      and "await c = Rejected e" and "outcome = Rejected e"
  | p pv t0 where
        "tr = prelude this n p pv vs t0 @ [Execute (propsOf this pv vs os) (Returns Pending)]"
      and "outcome = Pending"
  | p pv t0 res e where
        "tr = prelude this n p pv vs t0
                @ [Execute (propsOf this pv vs os) (Returns (Resolved res))]"
      and "ExecuteResult.error res = Some e"
      and "outcome = Rejected (PezzoClientError
             ''Prompt execution failed. Check the Pezzo History to see what went wrong.''
             (UnknownCause (ExecuteError.error e)) (Some (ExecuteError.status e)))"
  | p pv t0 res t1 pr where
        "tr = prelude this n p pv vs t0
                @ [Execute (propsOf this pv vs os) (Returns (Resolved res)),
                   PerformanceNow t1,
                   ReportPromptExecution
                     (firstReport p pv vs (interpolateVariables this (PromptVersion.content pv) vs)
                        res \<lceil>t1 - t0\<rceil>)
                     (autoParseJSON os) (Returns pr)]"
      and "ExecuteResult.error res = None" and "outcome = pr"
  | p pv t0 res t1 e1 c2 where
        "tr = prelude this n p pv vs t0
                @ [Execute (propsOf this pv vs os) (Returns (Resolved res)),
                   PerformanceNow t1,
                   ReportPromptExecution
                     (firstReport p pv vs (interpolateVariables this (PromptVersion.content pv) vs)
                        res \<lceil>t1 - t0\<rceil>)
                     (autoParseJSON os) (Throws e1),
                   ReportPromptExecution
                     (retryReport p pv vs (interpolateVariables this (PromptVersion.content pv) vs)
                        res \<lceil>t1 - t0\<rceil>)
                     None c2]"
      and "ExecuteResult.error res = None"
      and "outcome = Rejected (case c2 of Throws e2 \<Rightarrow> e2 | Returns q \<Rightarrow> e1)"
proof (cases "findPrompt (pezzoClient this) [] n" rule: await_cases)
  case (thrown e)
  with assms show ?thesis using that(1) [of e] by (auto simp add: run_def getPrompt_def Let_def)
next
  case (rejected e)
  with assms show ?thesis using that(2) [of e] by (auto simp add: run_def getPrompt_def Let_def)
next
  case pending
  with assms show ?thesis using that(3) by (auto simp add: run_def getPrompt_def Let_def)
next
  case (resolved p)
  let ?h1 = "[FindPrompt n (Returns (Resolved p))]"
  show ?thesis
  proof (cases "getDeployedPromptVersion (pezzoClient this) ?h1 (prompt_id p)" rule: await_cases)
    case (thrown e)
    with assms resolved show ?thesis using that(4) [of p e]
      by (auto simp add: run_def getPrompt_def getPromptVersion_def Let_def)
  next
    case (rejected e)
    with assms resolved show ?thesis using that(5) [of p e]
      by (auto simp add: run_def getPrompt_def getPromptVersion_def Let_def)
  next
    case pending
    with assms resolved show ?thesis using that(6) [of p]
      by (auto simp add: run_def getPrompt_def getPromptVersion_def Let_def)
  next
    case (resolved pv)
    with assms \<open>findPrompt (pezzoClient this) [] n = Returns (Resolved p)\<close>
    have "executeAndReport this
            [FindPrompt n (Returns (Resolved p)),
             GetDeployedPromptVersion (prompt_id p) (Returns (Resolved pv))] p pv vs os
          = (outcome, tr)"
      by (simp add: run_def getPrompt_def getPromptVersion_def Let_def)
    then show ?thesis
    proof (cases rule: executeAndReport_cases)
      case (execute_failed t0 c e)
      then show ?thesis using that(7) [of p pv t0 c e] by simp
    next
      case (execute_pending t0)
      then show ?thesis using that(8) [of p pv t0] by simp
    next
      case (backend_error t0 res e)
      then show ?thesis using that(9) [of p pv t0 res e] by simp
    next
      case (submitted t0 res t1 pr)
      then show ?thesis using that(10) [of p pv t0 res t1 pr] by simp
    next
      case (retried t0 res t1 e1 c2)
      then show ?thesis using that(11) [of p pv t0 res t1 e1 c2] by simp
    qed
  qed
qed

section \<open>The scenarios, run\<close>

lemmas run_defs =
  run_def executeAndReport_def submitReport_def getPrompt_def getPromptVersion_def Let_def

lemmas greeting_defs =
  greeting_def greetingClient_def greetingVersion_def greetingResult_def
  greetingPrompt_def greetingProps_def greetingReport_def greetingRetry_def

lemma greeting_elapsed: "\<lceil>(501::rat) / 2\<rceil> = 251"
  by (simp add: ceiling_eq_iff)

lemma greeting_run:
  "run greeting ''greeting'' adaVariables noOptions =
     (Resolved ''reported'',
      [FindPrompt ''greeting'' (Returns (Resolved greetingPrompt)),
       GetDeployedPromptVersion ''prompt-1'' (Returns (Resolved greetingVersion)),
       InterpolateVariables ''Hello, {{name}}!'' adaVariables ''Hello, Ada!'',
       PerformanceNow 1000,
       Execute (greetingProps noOptions) (Returns (Resolved greetingResult)),
       PerformanceNow (2501 / 2),
       ReportPromptExecution greetingReport None (Returns (Resolved ''reported''))])"
  by (simp add: run_defs greeting_defs noOptions_def greeting_elapsed)

lemma rateLimited_run:
  "run rateLimited ''greeting'' adaVariables noOptions =
     (Rejected (PezzoClientError
        ''Prompt execution failed. Check the Pezzo History to see what went wrong.''
        (UnknownCause ''HTTP 429 from provider'') (Some 429)),
      [FindPrompt ''greeting'' (Returns (Resolved greetingPrompt)),
       GetDeployedPromptVersion ''prompt-1'' (Returns (Resolved greetingVersion)),
       InterpolateVariables ''Hello, {{name}}!'' adaVariables ''Hello, Ada!'',
       PerformanceNow 1000,
       Execute (greetingProps noOptions) (Returns (Resolved rateLimitedResult))])"
  by (simp add: run_defs greeting_defs rateLimited_def rateLimitedResult_def rateLimit_def)

lemma tagged_run:
  "run tagged ''greeting'' adaVariables noOptions =
     (Resolved ''reported'',
      [FindPrompt ''greeting'' (Returns (Resolved greetingPrompt)),
       GetDeployedPromptVersion ''prompt-1'' (Returns (Resolved greetingVersion)),
       InterpolateVariables ''Hello, {{name}}!'' adaVariables ''Hello, Ada!'',
       PerformanceNow 1000,
       Execute (greetingProps noOptions) (Returns (Resolved taggedResult)),
       PerformanceNow (2501 / 2),
       ReportPromptExecution taggedReport None (Returns (Resolved ''reported''))])"
  by (simp add: run_defs greeting_defs tagged_def taggedResult_def taggedReport_def
      noOptions_def greeting_elapsed)

lemma lookupRejects_run:
  "run lookupRejects ''greeting'' adaVariables noOptions =
     (Rejected promptNotFound, [FindPrompt ''greeting'' (Returns (Rejected promptNotFound))])"
  by (simp add: run_defs greeting_defs lookupRejects_def)

lemma lookupThrows_run:
  "run lookupThrows ''greeting'' adaVariables noOptions =
     (Rejected (PezzoClientError ''Prompt not found'' (CaughtError promptNotFound) None),
      [FindPrompt ''greeting'' (Throws promptNotFound)])"
  by (simp add: run_defs greeting_defs lookupThrows_def promptNotFound_def)

lemma versionRejects_run:
  "run versionRejects ''greeting'' adaVariables noOptions =
     (Rejected promptNotFound,
      [FindPrompt ''greeting'' (Returns (Resolved greetingPrompt)),
       GetDeployedPromptVersion ''prompt-1'' (Returns (Rejected promptNotFound))])"
  by (simp add: run_defs greeting_defs versionRejects_def)

lemma retryRejects_run:
  "run retryRejects ''greeting'' adaVariables parseOptions =
     (Rejected reportDown,
      [FindPrompt ''greeting'' (Returns (Resolved greetingPrompt)),
       GetDeployedPromptVersion ''prompt-1'' (Returns (Resolved greetingVersion)),
       InterpolateVariables ''Hello, {{name}}!'' adaVariables ''Hello, Ada!'',
       PerformanceNow 1000,
       Execute (greetingProps parseOptions) (Returns (Resolved greetingResult)),
       PerformanceNow (2501 / 2),
       ReportPromptExecution greetingReport (Some True) (Throws reportDown),
       ReportPromptExecution greetingRetry None (Returns (Rejected retryDown))])"
  by (simp add: run_defs greeting_defs retryRejects_def parseOptions_def greeting_elapsed)

lemma retryThrows_run:
  "run retryThrows ''greeting'' adaVariables parseOptions =
     (Rejected retryDown,
      [FindPrompt ''greeting'' (Returns (Resolved greetingPrompt)),
       GetDeployedPromptVersion ''prompt-1'' (Returns (Resolved greetingVersion)),
       InterpolateVariables ''Hello, {{name}}!'' adaVariables ''Hello, Ada!'',
       PerformanceNow 1000,
       Execute (greetingProps parseOptions) (Returns (Resolved greetingResult)),
       PerformanceNow (2501 / 2),
       ReportPromptExecution greetingReport (Some True) (Throws reportDown),
       ReportPromptExecution greetingRetry None (Throws retryDown)])"
  by (simp add: run_defs greeting_defs retryThrows_def parseOptions_def greeting_elapsed)

section \<open>Backend errors\<close>

text \<open>
  C1. The claim: whenever the backend answers with an error record, exactly one report with
  status \<^verbatim>\<open>Error\<close> is submitted before the error is raised. The source throws at
  line 82, before the reporting block at line 98 is reached: in the rate-limit scenario the
  backend is called once and answers with an error record, no report is submitted, and the
  run rejects.
\<close>

theorem backend_error_is_not_reported:
  "executions (snd (run rateLimited ''greeting'' adaVariables noOptions)) =
     [(greetingProps noOptions, Returns (Resolved rateLimitedResult))]
   \<and> ExecuteResult.error rateLimitedResult = Some rateLimit
   \<and> reports (snd (run rateLimited ''greeting'' adaVariables noOptions)) = []
   \<and> rejection (fst (run rateLimited ''greeting'' adaVariables noOptions)) =
       Some (PezzoClientError
         ''Prompt execution failed. Check the Pezzo History to see what went wrong.''
         (UnknownCause ''HTTP 429 from provider'') (Some 429))"
  by (simp add: rateLimited_run rateLimitedResult_def)

text \<open>
  C2 as stated: the raised error's message is exactly
  \<^verbatim>\<open>Prompt execution failed. Check the history to see what went wrong.\<close> In the
  rate-limit scenario the run rejects with an error carrying the cause and the status 429, but
  not with that message.
\<close>

theorem backend_error_message_differs:
  "rejection (fst (run rateLimited ''greeting'' adaVariables noOptions)) =
     Some (PezzoClientError
       ''Prompt execution failed. Check the Pezzo History to see what went wrong.''
       (UnknownCause ''HTTP 429 from provider'') (Some 429))
   \<and> rejection (fst (run rateLimited ''greeting'' adaVariables noOptions)) \<noteq>
     Some (PezzoClientError
       ''Prompt execution failed. Check the history to see what went wrong.''
       (UnknownCause ''HTTP 429 from provider'') (Some 429))"
  by (simp add: rateLimited_run)

text \<open>
  C2, amended: for every run in which the backend answers with an error record, the run
  rejects with a \<^verbatim>\<open>PezzoClientError\<close> whose message is exactly
  \<^verbatim>\<open>Prompt execution failed. Check the Pezzo History to see what went wrong.\<close>, whose
  cause is the record's \<^verbatim>\<open>error\<close> and whose status code is the record's
  \<^verbatim>\<open>status\<close>.
\<close>

theorem backend_error_raised:
  assumes "run this promptName vs opts = (outcome, tr)"
    and "Execute props (Returns (Resolved res)) \<in> set tr"
    and "ExecuteResult.error res = Some e"
  shows "outcome = Rejected (PezzoClientError
           ''Prompt execution failed. Check the Pezzo History to see what went wrong.''
           (UnknownCause (ExecuteError.error e)) (Some (ExecuteError.status e)))"
  using assms(1)
  by (cases rule: run_cases) (use assms(2-) in auto)

theorem backend_error_raised_witness:
  "Execute (greetingProps noOptions) (Returns (Resolved rateLimitedResult))
     \<in> set (snd (run rateLimited ''greeting'' adaVariables noOptions))
   \<and> ExecuteResult.error rateLimitedResult = Some rateLimit
   \<and> fst (run rateLimited ''greeting'' adaVariables noOptions) =
       Rejected (PezzoClientError
         ''Prompt execution failed. Check the Pezzo History to see what went wrong.''
         (UnknownCause ''HTTP 429 from provider'') (Some 429))"
proof -
  have called: "Execute (greetingProps noOptions) (Returns (Resolved rateLimitedResult))
                  \<in> set (snd (run rateLimited ''greeting'' adaVariables noOptions))"
    by (simp add: rateLimited_run)
  have failed: "ExecuteResult.error rateLimitedResult = Some rateLimit"
    by (simp add: rateLimitedResult_def)
  from backend_error_raised [OF prod.collapse [symmetric] called failed] called failed
  show ?thesis by (simp add: rateLimit_def)
qed

section \<open>Failing report submissions\<close>

text \<open>
  C3 as stated: when the first report submission throws, the error raised to the caller is
  the retry's failure and not the first submission's. In this scenario the first submission
  throws, the retry fails too (its promise rejects with another error), and the run rejects
  with the first submission's error.
\<close>

theorem retry_failure_is_not_raised:
  "reportOutcomes (snd (run retryRejects ''greeting'' adaVariables parseOptions)) =
     [Throws reportDown, Returns (Rejected retryDown)]
   \<and> rejection (fst (run retryRejects ''greeting'' adaVariables parseOptions)) = Some reportDown
   \<and> rejection (fst (run retryRejects ''greeting'' adaVariables parseOptions)) \<noteq> Some retryDown"
  by (simp add: retryRejects_run reportOutcomes_def reportDown_def retryDown_def)

text \<open>
  C3, amended: for every run in which the first report-submission call itself throws, a
  second report-submission call occurs, and it is the last one, with a degraded payload (no
  result field) tagged status \<^verbatim>\<open>Error\<close>; the error raised to the caller is the
  first submission's error when the retry call returns a promise, and the retry's error when
  the retry call itself throws.
\<close>

theorem retry_after_thrown_submission:
  assumes "run this promptName vs opts = (outcome, tr)"
    and "reports tr = (r1, a1, Throws e1) # rest"
  shows "\<exists>r2 a2 c2. rest = [(r2, a2, c2)]
           \<and> Report.result r2 = None \<and> Report.status r2 = Error
           \<and> outcome = Rejected (case c2 of Throws e2 \<Rightarrow> e2 | Returns q \<Rightarrow> e1)"
  using assms(1)
  by (cases rule: run_cases) (use assms(2-) in \<open>auto simp add: retryReport_def\<close>)

theorem retry_after_thrown_submission_witness:
  "reports (snd (run retryRejects ''greeting'' adaVariables parseOptions)) =
     (greetingReport, Some True, Throws reportDown)
       # [(greetingRetry, None, Returns (Rejected retryDown))]
   \<and> Report.result greetingRetry = None \<and> Report.status greetingRetry = Error
   \<and> fst (run retryRejects ''greeting'' adaVariables parseOptions) = Rejected reportDown"
proof -
  have thrown: "reports (snd (run retryRejects ''greeting'' adaVariables parseOptions)) =
      (greetingReport, Some True, Throws reportDown)
        # [(greetingRetry, None, Returns (Rejected retryDown))]"
    by (simp add: retryRejects_run)
  from retry_after_thrown_submission [OF prod.collapse [symmetric] thrown] thrown
  show ?thesis by auto
qed

text \<open>
  C10 as stated: the first submission's failure is re-raised whether the retry succeeds or
  fails. In this scenario both submissions throw, and the run rejects with the retry's error:
  the exception leaves the \<^verbatim>\<open>catch\<close> block before \<^verbatim>\<open>throw e\<close> is reached.
\<close>

theorem thrown_retry_replaces_first_failure:
  "reportOutcomes (snd (run retryThrows ''greeting'' adaVariables parseOptions)) =
     [Throws reportDown, Throws retryDown]
   \<and> rejection (fst (run retryThrows ''greeting'' adaVariables parseOptions)) = Some retryDown
   \<and> rejection (fst (run retryThrows ''greeting'' adaVariables parseOptions)) \<noteq> Some reportDown"
  by (simp add: retryThrows_run reportOutcomes_def reportDown_def retryDown_def)

text \<open>
  C10, amended: when the first report-submission call itself throws, it was called with
  \<^verbatim>\<open>options.autoParseJSON\<close> and the retry is called without that hint; the promise the
  retry returns is not awaited, so the first submission's error is re-raised whatever that
  promise does (resolve, reject or never settle); only when the retry call itself throws is
  the retry's error raised instead.
\<close>

theorem retry_without_hint_not_awaited:
  assumes "run this promptName vs opts = (outcome, tr)"
    and "reports tr = (r1, a1, Throws e1) # rest"
  shows "a1 = autoParseJSON opts
       \<and> (\<exists>r2 c2. rest = [(r2, None, c2)]
            \<and> (case c2 of
                  Returns q \<Rightarrow> outcome = Rejected e1
                | Throws e2 \<Rightarrow> outcome = Rejected e2))"
  using assms(1)
  by (cases rule: run_cases) (use assms(2-) in \<open>auto split: call.splits\<close>)

theorem retry_without_hint_not_awaited_witness:
  "reports (snd (run retryRejects ''greeting'' adaVariables parseOptions)) =
     (greetingReport, Some True, Throws reportDown)
       # [(greetingRetry, None, Returns (Rejected retryDown))]
   \<and> autoParseJSON parseOptions = Some True
   \<and> fst (run retryRejects ''greeting'' adaVariables parseOptions) = Rejected reportDown"
proof -
  have thrown: "reports (snd (run retryRejects ''greeting'' adaVariables parseOptions)) =
      (greetingReport, Some True, Throws reportDown)
        # [(greetingRetry, None, Returns (Rejected retryDown))]"
    by (simp add: retryRejects_run)
  from retry_without_hint_not_awaited [OF prod.collapse [symmetric] thrown] thrown
  show ?thesis by auto
qed

section \<open>Failing lookups\<close>

text \<open>
  C4. The claim: when the prompt lookup fails, no report is submitted and the error raised is
  a \<^verbatim>\<open>PezzoClientError\<close> wrapping the failure's message, with the failure as its cause.
  \<^verbatim>\<open>getPrompt\<close> returns the client's promise from inside its \<^verbatim>\<open>try\<close> without
  awaiting it, so a lookup that fails by rejecting its promise passes the \<^verbatim>\<open>catch\<close>
  by: no report is submitted, and the run rejects with the lookup's own error, unwrapped.
\<close>

theorem rejected_lookup_is_not_wrapped:
  "snd (run lookupRejects ''greeting'' adaVariables noOptions) =
     [FindPrompt ''greeting'' (Returns (Rejected (JsError ''Prompt not found'' ''404'')))]
   \<and> reports (snd (run lookupRejects ''greeting'' adaVariables noOptions)) = []
   \<and> rejection (fst (run lookupRejects ''greeting'' adaVariables noOptions)) =
       Some (JsError ''Prompt not found'' ''404'')
   \<and> rejection (fst (run lookupRejects ''greeting'' adaVariables noOptions)) \<noteq>
       Some (PezzoClientError ''Prompt not found''
               (CaughtError (JsError ''Prompt not found'' ''404'')) None)"
  by (simp add: lookupRejects_run promptNotFound_def)

section \<open>Successful runs\<close>

text \<open>
  C5 as stated: when both lookups resolve, the backend resolves with a result that has no
  error record and the report submission resolves, the one report has status
  \<^verbatim>\<open>Success\<close>. Line 103 copies the status from the backend's result. In this scenario
  the backend resolves with a result tagged \<^verbatim>\<open>Error\<close> that has no error record:
  everything resolves, the run returns what the submission resolved with, and the one report
  has status \<^verbatim>\<open>Error\<close>.
\<close>

theorem error_tagged_result_is_reported_as_error:
  "FindPrompt ''greeting'' (Returns (Resolved greetingPrompt))
     \<in> set (snd (run tagged ''greeting'' adaVariables noOptions))
   \<and> GetDeployedPromptVersion ''prompt-1'' (Returns (Resolved greetingVersion))
     \<in> set (snd (run tagged ''greeting'' adaVariables noOptions))
   \<and> executions (snd (run tagged ''greeting'' adaVariables noOptions)) =
       [(greetingProps noOptions, Returns (Resolved taggedResult))]
   \<and> ExecuteResult.error taggedResult = None
   \<and> reports (snd (run tagged ''greeting'' adaVariables noOptions)) =
       [(taggedReport, None, Returns (Resolved ''reported''))]
   \<and> fst (run tagged ''greeting'' adaVariables noOptions) = Resolved ''reported''
   \<and> Report.status taggedReport = Error
   \<and> Report.status taggedReport \<noteq> Success"
  by (simp add: tagged_run taggedResult_def taggedReport_def firstReport_def)

text \<open>
  C5, amended: for every run in which the prompt lookup and the version lookup resolve, the
  backend resolves with a result that has no error record, and the report submission
  resolves with a value: the run resolves with exactly that value, that submission is the
  only one, its report has the status of the backend's result (\<^verbatim>\<open>Success\<close> when the
  backend tagged its result so), and its duration is not negative. The clock is monotonic,
  as \<^verbatim>\<open>performance.now\<close> is: the readings of the run are in ascending order.
\<close>

theorem successful_run:
  assumes "run this promptName vs opts = (outcome, tr)"
    and "FindPrompt promptName (Returns (Resolved p)) \<in> set tr"
    and "GetDeployedPromptVersion (prompt_id p) (Returns (Resolved pv)) \<in> set tr"
    and "Execute props (Returns (Resolved res)) \<in> set tr"
    and "ExecuteResult.error res = None"
    and "reports tr = (r, a, Returns (Resolved v)) # rest"
    and "sorted (readings tr)"
  shows "outcome = Resolved v \<and> rest = []
       \<and> Report.status r = ExecuteResult.status res \<and> 0 \<le> duration r"
  using assms(1)
proof (cases rule: run_cases)
  case (submitted p' pv' t0 res' t1 pr)
  from submitted(1) assms(4) have same: "res' = res" by simp
  from submitted(1) assms(6)
  have first: "r = firstReport p' pv' vs (interpolateVariables this (PromptVersion.content pv') vs)
                     res' \<lceil>t1 - t0\<rceil>"
    and "pr = Resolved v" and "rest = []"
    by simp_all
  moreover from submitted(1) assms(7) have "t0 \<le> t1" by simp
  then have "0 \<le> \<lceil>t1 - t0\<rceil>" by simp
  ultimately show ?thesis
    using submitted(3) same by (simp add: firstReport_def)
qed (use assms(2-) in auto)

theorem successful_run_witness:
  "FindPrompt ''greeting'' (Returns (Resolved greetingPrompt))
     \<in> set (snd (run greeting ''greeting'' adaVariables noOptions))
   \<and> GetDeployedPromptVersion (prompt_id greetingPrompt) (Returns (Resolved greetingVersion))
     \<in> set (snd (run greeting ''greeting'' adaVariables noOptions))
   \<and> Execute (greetingProps noOptions) (Returns (Resolved greetingResult))
     \<in> set (snd (run greeting ''greeting'' adaVariables noOptions))
   \<and> ExecuteResult.error greetingResult = None
   \<and> reports (snd (run greeting ''greeting'' adaVariables noOptions)) =
       (greetingReport, None, Returns (Resolved ''reported'')) # []
   \<and> sorted (readings (snd (run greeting ''greeting'' adaVariables noOptions)))
   \<and> fst (run greeting ''greeting'' adaVariables noOptions) = Resolved ''reported''
   \<and> Report.status greetingReport = ExecuteResult.status greetingResult
   \<and> ExecuteResult.status greetingResult = Success
   \<and> 0 \<le> duration greetingReport"
proof -
  have found: "FindPrompt ''greeting'' (Returns (Resolved greetingPrompt))
      \<in> set (snd (run greeting ''greeting'' adaVariables noOptions))"
    by (simp add: greeting_run)
  have deployed:
    "GetDeployedPromptVersion (prompt_id greetingPrompt) (Returns (Resolved greetingVersion))
      \<in> set (snd (run greeting ''greeting'' adaVariables noOptions))"
    by (simp add: greeting_run greetingPrompt_def)
  have executed: "Execute (greetingProps noOptions) (Returns (Resolved greetingResult))
      \<in> set (snd (run greeting ''greeting'' adaVariables noOptions))"
    by (simp add: greeting_run)
  have clean: "ExecuteResult.error greetingResult = None"
    and ok: "ExecuteResult.status greetingResult = Success"
    by (simp_all add: greetingResult_def)
  have reported: "reports (snd (run greeting ''greeting'' adaVariables noOptions)) =
      (greetingReport, None, Returns (Resolved ''reported'')) # []"
    by (simp add: greeting_run)
  have clock: "sorted (readings (snd (run greeting ''greeting'' adaVariables noOptions)))"
    by (simp add: greeting_run)
  from successful_run [OF prod.collapse [symmetric] found deployed executed clean reported
      clock]
    found deployed executed clean ok reported clock
  show ?thesis by simp
qed

section \<open>What a report carries\<close>

text \<open>
  C6. In every report submitted, first attempt or retry, \<^verbatim>\<open>totalTokens\<close> is the sum of
  \<^verbatim>\<open>promptTokens\<close> and \<^verbatim>\<open>completionTokens\<close> of the result the backend resolved
  with, and \<^verbatim>\<open>totalCost\<close> the sum of its \<^verbatim>\<open>promptCost\<close> and
  \<^verbatim>\<open>completionCost\<close>, with the addition of the number type.
\<close>

theorem report_totals:
  assumes "run this promptName vs opts = (outcome, tr)"
    and "ReportPromptExecution r a c \<in> set tr"
  shows "\<exists>props res. executions tr = [(props, Returns (Resolved res))]
           \<and> totalTokens r
               = ExecuteResult.promptTokens res + ExecuteResult.completionTokens res
           \<and> totalCost r = ExecuteResult.promptCost res + ExecuteResult.completionCost res"
  using assms(1)
  by (cases rule: run_cases)
    (use assms(2-) in \<open>auto simp add: firstReport_def retryReport_def\<close>)

theorem report_totals_witness:
  "ReportPromptExecution greetingRetry None (Returns (Rejected retryDown))
     \<in> set (snd (run retryRejects ''greeting'' adaVariables parseOptions))
   \<and> executions (snd (run retryRejects ''greeting'' adaVariables parseOptions)) =
       [(greetingProps parseOptions, Returns (Resolved greetingResult))]
   \<and> totalTokens greetingRetry = 5 \<and> totalCost greetingRetry = 3 / 1000"
proof -
  have retried: "ReportPromptExecution greetingRetry None (Returns (Rejected retryDown))
      \<in> set (snd (run retryRejects ''greeting'' adaVariables parseOptions))"
    by (simp add: retryRejects_run)
  have executed: "executions (snd (run retryRejects ''greeting'' adaVariables parseOptions)) =
      [(greetingProps parseOptions, Returns (Resolved greetingResult))]"
    by (simp add: retryRejects_run)
  from report_totals [OF prod.collapse [symmetric] retried] retried executed
  show ?thesis by (auto simp add: greetingResult_def)
qed

text \<open>
  C9. No report ever submitted has the \<^verbatim>\<open>error\<close> field: the reporting block is reached
  only when the backend's result has no error record, so the conditional spread adds nothing
  to the first report or to the retry.
\<close>

theorem report_omits_error:
  assumes "run this promptName vs opts = (outcome, tr)"
    and "ReportPromptExecution r a c \<in> set tr"
  shows "Report.error r = None
       \<and> (\<exists>props res. executions tr = [(props, Returns (Resolved res))]
            \<and> ExecuteResult.error res = None)"
  using assms(1)
proof (cases rule: run_cases)
  case (submitted p pv t0 res t1 pr)
  with assms(2) show ?thesis by (auto simp add: firstReport_def)
next
  case (retried p pv t0 res t1 e1 c2)
  with assms(2) show ?thesis by (auto simp add: firstReport_def retryReport_def)
qed (use assms(2) in simp_all)

theorem report_omits_error_witness:
  "ReportPromptExecution greetingReport (Some True) (Throws reportDown)
     \<in> set (snd (run retryRejects ''greeting'' adaVariables parseOptions))
   \<and> Report.error greetingReport = None
   \<and> executions (snd (run retryRejects ''greeting'' adaVariables parseOptions)) =
       [(greetingProps parseOptions, Returns (Resolved greetingResult))]
   \<and> ExecuteResult.error greetingResult = None"
proof -
  have first: "ReportPromptExecution greetingReport (Some True) (Throws reportDown)
      \<in> set (snd (run retryRejects ''greeting'' adaVariables parseOptions))"
    by (simp add: retryRejects_run)
  have executed: "executions (snd (run retryRejects ''greeting'' adaVariables parseOptions)) =
      [(greetingProps parseOptions, Returns (Resolved greetingResult))]"
    by (simp add: retryRejects_run)
  from report_omits_error [OF prod.collapse [symmetric] first] first executed
  show ?thesis by auto
qed

section \<open>Counting calls\<close>

text \<open>
  C7. No run interpolates or calls the backend more than once. A run in which the version
  lookup resolves calls \<^verbatim>\<open>execute\<close> exactly once: the content is the interpolation of the
  version's content with the caller's variables, the settings have the version's
  \<^verbatim>\<open>model\<close> and \<^verbatim>\<open>modelSettings\<close> and no other field, and the options are the
  caller's.
\<close>

theorem execute_once:
  assumes "run this promptName vs opts = (outcome, tr)"
  shows "length (interpolations tr) \<le> 1 \<and> length (executions tr) \<le> 1
       \<and> (GetDeployedPromptVersion i (Returns (Resolved pv)) \<in> set tr \<longrightarrow>
            interpolations tr =
              [(PromptVersion.content pv, vs,
                interpolateVariables this (PromptVersion.content pv) vs)]
            \<and> (\<exists>c. executions tr =
                 [(\<lparr> ExecuteProps.content =
                        interpolateVariables this (PromptVersion.content pv) vs,
                      ExecuteProps.settings =
                        \<lparr> model = model (PromptVersion.settings pv),
                          modelSettings = modelSettings (PromptVersion.settings pv) \<rparr>,
                      options = Some opts \<rparr>, c)]))"
  using assms(1)
  by (cases rule: run_cases) auto

theorem execute_once_witness:
  "GetDeployedPromptVersion ''prompt-1'' (Returns (Resolved greetingVersion))
     \<in> set (snd (run greeting ''greeting'' adaVariables noOptions))
   \<and> interpolations (snd (run greeting ''greeting'' adaVariables noOptions)) =
       [(''Hello, {{name}}!'', adaVariables, ''Hello, Ada!'')]
   \<and> executions (snd (run greeting ''greeting'' adaVariables noOptions)) =
       [(\<lparr> ExecuteProps.content = ''Hello, Ada!'',
            ExecuteProps.settings =
              \<lparr> model = ''gpt-3.5-turbo'', modelSettings = ''temperature=0'' \<rparr>,
            options = Some noOptions \<rparr>,
         Returns (Resolved greetingResult))]"
proof -
  have deployed: "GetDeployedPromptVersion ''prompt-1'' (Returns (Resolved greetingVersion))
      \<in> set (snd (run greeting ''greeting'' adaVariables noOptions))"
    by (simp add: greeting_run)
  have executed: "map snd (executions (snd (run greeting ''greeting'' adaVariables noOptions)))
      = [Returns (Resolved greetingResult)]"
    by (simp add: greeting_run)
  from execute_once [OF prod.collapse [symmetric],
      of greeting "''greeting''" adaVariables noOptions "''prompt-1''" greetingVersion]
    deployed executed
  show ?thesis by (auto simp add: greeting_def greetingVersion_def)
qed

text \<open>
  C8. A run submits at most two reports, two only if the first submission threw, and none if
  the prompt lookup or the version lookup failed (threw, or returned a promise that
  rejected).
\<close>

theorem at_most_two_reports:
  assumes "run this promptName vs opts = (outcome, tr)"
  shows "length (reports tr) \<le> 2
       \<and> (length (reports tr) = 2 \<longrightarrow> (\<exists>r a e rest. reports tr = (r, a, Throws e) # rest))
       \<and> (FindPrompt n c \<in> set tr \<and> await c = Rejected e \<longrightarrow> reports tr = [])
       \<and> (GetDeployedPromptVersion i c' \<in> set tr \<and> await c' = Rejected e'
            \<longrightarrow> reports tr = [])"
  using assms(1)
  by (cases rule: run_cases) auto

theorem at_most_two_reports_witness:
  "length (reports (snd (run retryRejects ''greeting'' adaVariables parseOptions))) = 2
   \<and> reportOutcomes (snd (run retryRejects ''greeting'' adaVariables parseOptions)) =
       [Throws reportDown, Returns (Rejected retryDown)]
   \<and> FindPrompt ''greeting'' (Throws promptNotFound)
       \<in> set (snd (run lookupThrows ''greeting'' adaVariables noOptions))
   \<and> await (Throws promptNotFound :: ((string, rat) thrown, Prompt) call)
       = Rejected promptNotFound
   \<and> reports (snd (run lookupThrows ''greeting'' adaVariables noOptions)) = []
   \<and> GetDeployedPromptVersion ''prompt-1'' (Returns (Rejected promptNotFound))
       \<in> set (snd (run versionRejects ''greeting'' adaVariables noOptions))
   \<and> await (Returns (Rejected promptNotFound)
              :: ((string, rat) thrown, (string, extra) PromptVersion) call)
       = Rejected promptNotFound
   \<and> reports (snd (run versionRejects ''greeting'' adaVariables noOptions)) = []"
proof -
  have two: "length (reports (snd (run retryRejects ''greeting'' adaVariables parseOptions))) = 2"
    and outcomes: "reportOutcomes (snd (run retryRejects ''greeting'' adaVariables parseOptions))
      = [Throws reportDown, Returns (Rejected retryDown)]"
    by (simp_all add: retryRejects_run reportOutcomes_def)
  have thrown: "FindPrompt ''greeting'' (Throws promptNotFound)
      \<in> set (snd (run lookupThrows ''greeting'' adaVariables noOptions))"
    by (simp add: lookupThrows_run)
  have rejected: "GetDeployedPromptVersion ''prompt-1'' (Returns (Rejected promptNotFound))
      \<in> set (snd (run versionRejects ''greeting'' adaVariables noOptions))"
    by (simp add: versionRejects_run)
  from
    at_most_two_reports [OF prod.collapse [symmetric],
      of retryRejects "''greeting''" adaVariables parseOptions]
    at_most_two_reports [OF prod.collapse [symmetric],
      of lookupThrows "''greeting''" adaVariables noOptions
         "''greeting''" "Throws promptNotFound" promptNotFound]
    at_most_two_reports [OF prod.collapse [symmetric],
      of versionRejects "''greeting''" adaVariables noOptions
         _ _ _ "''prompt-1''" "Returns (Rejected promptNotFound)" promptNotFound]
    two outcomes thrown rejected
  show ?thesis by simp
qed

end
